theory Spec2Isabelle
  imports Complex_Main
begin

section \<open>JavaScript primitives used by the bulk modification engine\<close>

text \<open>
  The engine is written in JavaScript; its functions work on strings and on numbers.

  A string is modelled as a \<open>string\<close>, a list of characters, each character one code
  unit in the range 0 to 255 (Latin-1). White space and letter case are those of
  JavaScript on this range.

  A number is an IEEE 754 double: \<open>NaN\<close>, plus and minus infinity, or a finite value,
  held as the rational it denotes. Every operation that rounds in JavaScript rounds here:
  \<open>fl\<close> rounds a rational to the nearest double, a tie to the even significand, and to
  an infinity beyond the largest double. Minus zero is not kept apart from zero: no
  operation of the engine tells the two apart.
\<close>

datatype jsnum = NaN | Fin rat | PInf | NInf

subsection \<open>Strings\<close>

text \<open>White space (\<open>trim\<close>, \<open>parseFloat\<close>): tab, line feed, vertical tab, form feed,
  carriage return, space and no-break space.\<close>

definition isSpace :: "char \<Rightarrow> bool" where
  "isSpace c = (c \<in> set [CHR 0x09, CHR 0x0A, CHR 0x0B, CHR 0x0C, CHR 0x0D, CHR 0x20, CHR 0xA0])"

definition isDigit :: "char \<Rightarrow> bool" where
  "isDigit c = (c \<in> set ''0123456789'')"

definition digitTable :: "(char \<times> int) list" where
  "digitTable = zip ''0123456789'' [0, 1, 2, 3, 4, 5, 6, 7, 8, 9]"

definition digitVal :: "char \<Rightarrow> int" where
  "digitVal c = (case map_of digitTable c of None \<Rightarrow> 0 | Some d \<Rightarrow> d)"

definition digitChar :: "int \<Rightarrow> char" where
  "digitChar d =
     (case map_of (map (\<lambda>cd. (snd cd, fst cd)) digitTable) d of
        None \<Rightarrow> CHR ''0'' | Some c \<Rightarrow> c)"

text \<open>\<open>String.prototype.trim\<close>.\<close>

definition trim :: "string \<Rightarrow> string" where
  "trim s = rev (dropWhile isSpace (rev (dropWhile isSpace s)))"

text \<open>
  \<open>String.prototype.toLowerCase\<close>: the letters \<open>A\<close> to \<open>Z\<close> and the capital letters of
  Latin-1 (code units 192 to 222 but 215, the multiplication sign) move up by 32.
\<close>

definition lowerChar :: "char \<Rightarrow> char" where
  "lowerChar c =
     (let n = (of_char c :: nat)
      in if (65 \<le> n \<and> n \<le> 90) \<or> (192 \<le> n \<and> n \<le> 222 \<and> n \<noteq> 215)
         then char_of (n + 32) else c)"

definition toLowerCase :: "string \<Rightarrow> string" where
  "toLowerCase s = map lowerChar s"

text \<open>\<open>s.startsWith(p)\<close>, \<open>s.endsWith(p)\<close> and \<open>s.includes(p)\<close>.\<close>

fun startsWith :: "string \<Rightarrow> string \<Rightarrow> bool" where
  "startsWith s [] = True"
| "startsWith [] (p # ps) = False"
| "startsWith (c # cs) (p # ps) = (c = p \<and> startsWith cs ps)"

definition endsWith :: "string \<Rightarrow> string \<Rightarrow> bool" where
  "endsWith s p = startsWith (rev s) (rev p)"

fun includes_str :: "string \<Rightarrow> string \<Rightarrow> bool" where
  "includes_str [] p = (p = [])"
| "includes_str (c # cs) p = (startsWith (c # cs) p \<or> includes_str cs p)"

text \<open>
  \<open>s.split(sep)\<close> for a string separator. With the empty separator JavaScript splits
  into the single characters (and the empty string into no piece at all).
\<close>

function splitAcc :: "string \<Rightarrow> string \<Rightarrow> string \<Rightarrow> string list" where
  "splitAcc sep acc [] = [rev acc]"
| "splitAcc sep acc (c # cs) =
     (if sep \<noteq> [] \<and> startsWith (c # cs) sep
      then rev acc # splitAcc sep [] (drop (length sep) (c # cs))
      else splitAcc sep (c # acc) cs)"
  by pat_completeness auto
termination
  by (relation "measure (\<lambda>(sep, acc, s). length s)") auto

definition split :: "string \<Rightarrow> string \<Rightarrow> string list" where
  "split s sep = (if sep = [] then map (\<lambda>c. [c]) s else splitAcc sep [] s)"

text \<open>\<open>xs.join(sep)\<close>.\<close>

fun join :: "string list \<Rightarrow> string \<Rightarrow> string" where
  "join [] sep = []"
| "join [x] sep = x"
| "join (x # y # ys) sep = x @ sep @ join (y # ys) sep"

text \<open>\<open>[...new Set(xs)]\<close>: the distinct elements in order of first occurrence.\<close>

fun uniq :: "string list \<Rightarrow> string list \<Rightarrow> string list" where
  "uniq seen [] = []"
| "uniq seen (x # xs) = (if x \<in> set seen then uniq seen xs else x # uniq (x # seen) xs)"

text \<open>
  A value that may be \<open>null\<close> or \<open>undefined\<close> is an \<open>option\<close>; \<open>x || d\<close> on such a
  string takes \<open>d\<close> for \<open>null\<close>, \<open>undefined\<close> and the empty string.
\<close>

definition orElse :: "string option \<Rightarrow> string \<Rightarrow> string" where
  "orElse x d = (case x of None \<Rightarrow> d | Some s \<Rightarrow> if s = [] then d else s)"

definition falsy :: "string option \<Rightarrow> bool" where
  "falsy x = (case x of None \<Rightarrow> True | Some s \<Rightarrow> s = [])"

subsection \<open>Rounding to a double\<close>

definition pow2 :: "int \<Rightarrow> rat" where
  "pow2 k = (if 0 \<le> k then 2 ^ nat k else 1 / 2 ^ nat (- k))"

definition pow10 :: "int \<Rightarrow> rat" where
  "pow10 k = (if 0 \<le> k then 10 ^ nat k else 1 / 10 ^ nat (- k))"

text \<open>The number of digits of a positive integer in base \<open>b\<close>; \<open>0\<close> for the others.\<close>

function ndigits :: "int \<Rightarrow> int \<Rightarrow> int" where
  "ndigits b n = (if n \<le> 0 \<or> b \<le> 1 then 0 else 1 + ndigits b (n div b))"
  by pat_completeness auto
termination
  by (relation "measure (\<lambda>(b, n). nat n)") (auto simp: int_div_less_self)

declare ndigits.simps [simp del]

text \<open>
  For positive \<open>x\<close>, \<open>floorlog b x\<close> is the integer \<open>k\<close> with \<open>b^k \<le> x < b^(k+1)\<close>.
\<close>

definition floorlog :: "int \<Rightarrow> rat \<Rightarrow> int" where
  "floorlog b x =
     (if 1 \<le> x then ndigits b \<lfloor>x\<rfloor> - 1 else - ndigits b (\<lceil>1 / x\<rceil> - 1))"

definition roundHalfEven :: "rat \<Rightarrow> int" where
  "roundHalfEven y =
     (let f = \<lfloor>y\<rfloor>; d = y - of_int f
      in if d < 1 / 2 then f else if 1 / 2 < d then f + 1 else if even f then f else f + 1)"

text \<open>
  The spacing of the doubles around \<open>x\<close> is \<open>2^e\<close> with \<open>e\<close> the exponent of \<open>x\<close> less 52,
  and \<open>-1074\<close> in the subnormal range; \<open>x\<close> rounds to \<open>m * 2^e\<close> with \<open>m\<close> the integer
  nearest to \<open>x / 2^e\<close>, at most \<open>2^53\<close> in magnitude. The rounded magnitude reaches
  \<open>2^1024\<close>, and the result is an infinity, when \<open>e\<close> exceeds \<open>971\<close> or is \<open>971\<close> with
  \<open>m\<close> of magnitude \<open>2^53\<close>.
\<close>

definition fl :: "rat \<Rightarrow> jsnum" where
  "fl x =
     (if x = 0 then Fin 0
      else let e = max (floorlog 2 \<bar>x\<bar> - 52) (- 1074);
               m = roundHalfEven (x / pow2 e)
           in if 971 < e \<or> (e = 971 \<and> 2 ^ 53 \<le> \<bar>m\<bar>) then (if 0 < x then PInf else NInf)
              else Fin (of_int m * pow2 e))"

subsection \<open>Numbers and their text\<close>

text \<open>The decimal digits of a non-negative integer, and the text of an integer.\<close>

function digitsOf :: "int \<Rightarrow> string" where
  "digitsOf n = (if n < 10 then [digitChar n] else digitsOf (n div 10) @ [digitChar (n mod 10)])"
  by pat_completeness auto
termination
  by (relation "measure nat") auto

declare digitsOf.simps [simp del]

definition intToString :: "int \<Rightarrow> string" where
  "intToString i = (if i < 0 then CHR ''-'' # digitsOf (- i) else digitsOf i)"

text \<open>The value of a string of decimal digits.\<close>

definition digitsVal :: "string \<Rightarrow> int" where
  "digitsVal ds = foldl (\<lambda>a c. 10 * a + digitVal c) 0 ds"

text \<open>
  \<open>parseFloat\<close>: leading white space is skipped, then the longest prefix that is a
  decimal literal is read: an optional sign, then \<open>Infinity\<close>, or digits with an optional
  fraction and an optional exponent. No such prefix gives \<open>NaN\<close>. The value read is
  rounded to a double.
\<close>

definition parseExponent :: "string \<Rightarrow> int" where
  "parseExponent s =
     (case s of
        [] \<Rightarrow> 0
      | c # r \<Rightarrow>
          if c = CHR ''e'' \<or> c = CHR ''E'' then
            (case r of
               [] \<Rightarrow> 0
             | d # r' \<Rightarrow>
                 if d = CHR ''-'' then - digitsVal (takeWhile isDigit r')
                 else if d = CHR ''+'' then digitsVal (takeWhile isDigit r')
                 else digitsVal (takeWhile isDigit r))
          else 0)"

definition parseUnsigned :: "string \<Rightarrow> rat option" where
  "parseUnsigned s =
     (let ip = takeWhile isDigit s;
          r1 = dropWhile isDigit s;
          fp = (case r1 of [] \<Rightarrow> [] | c # t \<Rightarrow> if c = CHR ''.'' then takeWhile isDigit t else []);
          r2 = (case r1 of [] \<Rightarrow> [] | c # t \<Rightarrow> if c = CHR ''.'' then dropWhile isDigit t else r1)
      in if ip = [] \<and> fp = [] then None
         else Some ((of_int (digitsVal ip) + of_int (digitsVal fp) / 10 ^ length fp)
                      * pow10 (parseExponent r2)))"

definition parseFloat :: "string \<Rightarrow> jsnum" where
  "parseFloat s =
     (let t = dropWhile isSpace s;
          neg = (case t of [] \<Rightarrow> False | c # _ \<Rightarrow> c = CHR ''-'');
          u = (case t of [] \<Rightarrow> [] | c # r \<Rightarrow> if c = CHR ''-'' \<or> c = CHR ''+'' then r else t)
      in if startsWith u ''Infinity'' then (if neg then NInf else PInf)
         else (case parseUnsigned u of
                 None \<Rightarrow> NaN
               | Some q \<Rightarrow> fl (if neg then - q else q)))"

text \<open>Arithmetic: the exact result, rounded.\<close>

definition isNaN :: "jsnum \<Rightarrow> bool" where
  "isNaN x = (x = NaN)"

fun jsNeg :: "jsnum \<Rightarrow> jsnum" where
  "jsNeg NaN = NaN"
| "jsNeg (Fin a) = Fin (- a)"
| "jsNeg PInf = NInf"
| "jsNeg NInf = PInf"

fun jsAdd :: "jsnum \<Rightarrow> jsnum \<Rightarrow> jsnum" where
  "jsAdd NaN y = NaN"
| "jsAdd x NaN = NaN"
| "jsAdd (Fin a) (Fin b) = fl (a + b)"
| "jsAdd PInf NInf = NaN"
| "jsAdd NInf PInf = NaN"
| "jsAdd PInf y = PInf"
| "jsAdd NInf y = NInf"
| "jsAdd x PInf = PInf"
| "jsAdd x NInf = NInf"

definition jsSub :: "jsnum \<Rightarrow> jsnum \<Rightarrow> jsnum" where
  "jsSub x y = jsAdd x (jsNeg y)"

definition jsSign :: "jsnum \<Rightarrow> int" where
  "jsSign x = (case x of NaN \<Rightarrow> 0 | Fin a \<Rightarrow> (if a < 0 then - 1 else if a = 0 then 0 else 1)
               | PInf \<Rightarrow> 1 | NInf \<Rightarrow> - 1)"

fun jsMul :: "jsnum \<Rightarrow> jsnum \<Rightarrow> jsnum" where
  "jsMul NaN y = NaN"
| "jsMul x NaN = NaN"
| "jsMul (Fin a) (Fin b) = fl (a * b)"
| "jsMul x y = (if jsSign x * jsSign y = 0 then NaN
                else if jsSign x * jsSign y = 1 then PInf else NInf)"

text \<open>Division by the constant \<open>100\<close>, the only division of the engine.\<close>

fun jsDiv100 :: "jsnum \<Rightarrow> jsnum" where
  "jsDiv100 (Fin a) = fl (a / 100)"
| "jsDiv100 x = x"

fun mathFloor :: "jsnum \<Rightarrow> jsnum" where
  "mathFloor (Fin a) = Fin (of_int \<lfloor>a\<rfloor>)"
| "mathFloor x = x"

text \<open>\<open>Math.round\<close>: the nearest integer, a tie towards plus infinity.\<close>

fun mathRound :: "jsnum \<Rightarrow> jsnum" where
  "mathRound (Fin a) = Fin (of_int \<lfloor>a + 1 / 2\<rfloor>)"
| "mathRound x = x"

text \<open>\<open>Math.max(0, x)\<close>.\<close>

fun mathMax0 :: "jsnum \<Rightarrow> jsnum" where
  "mathMax0 NaN = NaN"
| "mathMax0 (Fin a) = Fin (max 0 a)"
| "mathMax0 PInf = PInf"
| "mathMax0 NInf = Fin 0"

text \<open>Strict equality and the order on numbers: every comparison with \<open>NaN\<close> is false.\<close>

fun jsEq :: "jsnum \<Rightarrow> jsnum \<Rightarrow> bool" where
  "jsEq NaN y = False"
| "jsEq x NaN = False"
| "jsEq x y = (x = y)"

fun jsLess :: "jsnum \<Rightarrow> jsnum \<Rightarrow> bool" where
  "jsLess NaN y = False"
| "jsLess x NaN = False"
| "jsLess (Fin a) (Fin b) = (a < b)"
| "jsLess NInf y = (y \<noteq> NInf)"
| "jsLess x PInf = (x \<noteq> PInf)"
| "jsLess x y = False"

definition jsLessEq :: "jsnum \<Rightarrow> jsnum \<Rightarrow> bool" where
  "jsLessEq x y = (jsLess x y \<or> jsEq x y)"

text \<open>
  \<open>String(x)\<close> for a positive finite double \<open>x\<close>: the shortest decimal \<open>s * 10^(n-k)\<close>,
  \<open>s\<close> of \<open>k\<close> digits, that rounds to \<open>x\<close> (the nearest to \<open>x\<close> if two of that
  length do); 17 digits always suffice. \<open>n\<close> is the position of the decimal point.
\<close>

definition candidate :: "rat \<Rightarrow> int \<Rightarrow> int \<Rightarrow> int option" where
  "candidate x n k =
     (let u = pow10 (n - k);
          lo = \<lfloor>x / u\<rfloor>;
          hi = lo + 1;
          okLo = (fl (of_int lo * u) = Fin x);
          okHi = (fl (of_int hi * u) = Fin x)
      in if okLo \<and> okHi
         then (if x - of_int lo * u \<le> of_int hi * u - x then Some lo else Some hi)
         else if okLo then Some lo
         else if okHi then Some hi
         else None)"

fun shortest :: "rat \<Rightarrow> int \<Rightarrow> int list \<Rightarrow> int \<times> int" where
  "shortest x n [] = (\<lfloor>x / pow10 (n - 17)\<rfloor>, 17)"
| "shortest x n (k # ks) =
     (case candidate x n k of Some s \<Rightarrow> (s, k) | None \<Rightarrow> shortest x n ks)"

definition positiveToString :: "rat \<Rightarrow> string" where
  "positiveToString x =
     (let n0 = floorlog 10 x + 1;
          sk = shortest x n0 [1, 2, 3, 4, 5, 6, 7, 8, 9, 10, 11, 12, 13, 14, 15, 16, 17];
          k = snd sk;
          carry = (fst sk = \<lfloor>pow10 k\<rfloor>);
          s = (if carry then \<lfloor>pow10 (k - 1)\<rfloor> else fst sk);
          n = (if carry then n0 + 1 else n0);
          ds = digitsOf s
      in if k \<le> n \<and> n \<le> 21 then ds @ replicate (nat (n - k)) CHR ''0''
         else if 0 < n \<and> n \<le> 21 then take (nat n) ds @ ''.'' @ drop (nat n) ds
         else if - 6 < n \<and> n \<le> 0 then ''0.'' @ replicate (nat (- n)) CHR ''0'' @ ds
         else (if k = 1 then ds else take 1 ds @ ''.'' @ drop 1 ds)
              @ ''e'' @ (if 0 \<le> n - 1 then ''+'' else ''-'') @ digitsOf \<bar>n - 1\<bar>)"

fun numToString :: "jsnum \<Rightarrow> string" where
  "numToString NaN = ''NaN''"
| "numToString PInf = ''Infinity''"
| "numToString NInf = ''-Infinity''"
| "numToString (Fin a) =
     (if a = 0 then ''0''
      else if a < 0 then CHR ''-'' # positiveToString (- a)
      else positiveToString a)"

text \<open>
  \<open>x.toFixed(k)\<close>: for a magnitude below \<open>10^21\<close> the integer nearest to \<open>x * 10^k\<close> (a
  tie to the larger one), printed with \<open>k\<close> digits after the point and at least one
  before it; from \<open>10^21\<close> on, \<open>String(x)\<close>.
\<close>

definition padLeft :: "nat \<Rightarrow> string \<Rightarrow> string" where
  "padLeft k s = replicate (k - length s) CHR ''0'' @ s"

definition fixedDigits :: "nat \<Rightarrow> rat \<Rightarrow> string" where
  "fixedDigits k a =
     (let n = \<lfloor>a * 10 ^ k + 1 / 2\<rfloor>
      in if k = 0 then digitsOf n
         else digitsOf (n div 10 ^ k) @ ''.'' @ padLeft k (digitsOf (n mod 10 ^ k)))"

fun toFixed :: "nat \<Rightarrow> jsnum \<Rightarrow> string" where
  "toFixed k NaN = ''NaN''"
| "toFixed k PInf = ''Infinity''"
| "toFixed k NInf = ''-Infinity''"
| "toFixed k (Fin a) =
     (if 10 ^ 21 \<le> \<bar>a\<bar> then numToString (Fin a)
      else if a < 0 then CHR ''-'' # fixedDigits k (- a)
      else fixedDigits k a)"

text \<open>\<open>x % 1 === 0\<close>: the number is finite and an integer.\<close>

fun isWhole :: "jsnum \<Rightarrow> bool" where
  "isWhole (Fin a) = (a = of_int \<lfloor>a\<rfloor>)"
| "isWhole x = False"

section \<open>Data model\<close>

text \<open>
  A variant (sub-entity) as the catalog query returns it. A field the query may leave
  \<open>null\<close> or absent is an \<open>option\<close>. \<open>weight\<close> is
  \<open>inventoryItem?.measurement?.weight?.value\<close>.
\<close>

record variant =
  v_id :: string
  v_title :: string
  price :: "string option"
  compareAtPrice :: "string option"
  sku :: "string option"
  barcode :: "string option"
  inventoryQuantity :: "int option"
  weight :: "jsnum option"

record product =
  p_id :: string
  title :: string
  handle :: string
  status :: string
  productType :: string
  vendor :: string
  templateSuffix :: "string option"
  featuredMedia :: bool
  tags :: "string list"
  variants :: "variant list"

text \<open>
  \<open>featuredMedia\<close> tells whether the product has a media object (it is \<open>null\<close> or
  absent otherwise). A product built by the webhook has no handle, no template suffix
  and no media: there the handle is the empty string, which reads like an absent one.

  \<open>String(product[name] || "")\<close> for a property of the product object itself. The
  properties \<open>variants\<close> and \<open>featuredMedia\<close> hold objects, which print as
  \<open>[object Object]\<close>; \<open>tags\<close> holds an array, which the engine reads on a path of
  its own and which prints as its elements joined by commas. Names that the object
  inherits from its prototype are not modelled.
\<close>

definition productProp :: "product \<Rightarrow> string \<Rightarrow> string" where
  "productProp p name =
     (if name = ''id'' then p_id p
      else if name = ''title'' then title p
      else if name = ''handle'' then handle p
      else if name = ''status'' then status p
      else if name = ''productType'' then productType p
      else if name = ''vendor'' then vendor p
      else if name = ''templateSuffix'' then orElse (templateSuffix p) []
      else if name = ''tags'' then join (tags p) '',''
      else if name = ''variants'' then ''[object Object]''
      else if name = ''featuredMedia'' then (if featuredMedia p then ''[object Object]'' else [])
      else [])"

text \<open>A filter rule and a modification spec, as the wizard builds them: every field a string.\<close>

record rule =
  r_field :: string
  r_operator :: string
  r_value :: string
  r_value2 :: string

record modification =
  m_field :: string
  m_type :: string
  m_value :: string
  m_value2 :: string
  m_rounding :: string

datatype category = Numeric | Text | Tags | Select

datatype level = ProductLevel | VariantLevel

record fieldDef =
  fd_value :: string
  fd_category :: category
  fd_level :: level
  fd_accessor :: "(variant \<Rightarrow> string option) option"


section \<open>The interactive wizard's engine\<close>

subsection \<open>Field registry\<close>

definition weightAccessor :: "variant \<Rightarrow> string option" where
  "weightAccessor v = (case weight v of None \<Rightarrow> Some ''0'' | Some w \<Rightarrow> Some (numToString w))"

definition EDITABLE_FIELDS :: "fieldDef list" where
  "EDITABLE_FIELDS =
     [\<lparr>fd_value = ''price'', fd_category = Numeric, fd_level = VariantLevel,
        fd_accessor = Some price\<rparr>,
      \<lparr>fd_value = ''compareAtPrice'', fd_category = Numeric, fd_level = VariantLevel,
        fd_accessor = Some compareAtPrice\<rparr>,
      \<lparr>fd_value = ''sku'', fd_category = Text, fd_level = VariantLevel,
        fd_accessor = Some (\<lambda>v. Some (orElse (sku v) []))\<rparr>,
      \<lparr>fd_value = ''barcode'', fd_category = Text, fd_level = VariantLevel,
        fd_accessor = Some (\<lambda>v. Some (orElse (barcode v) []))\<rparr>,
      \<lparr>fd_value = ''weight'', fd_category = Numeric, fd_level = VariantLevel,
        fd_accessor = Some weightAccessor\<rparr>,
      \<lparr>fd_value = ''title'', fd_category = Text, fd_level = ProductLevel, fd_accessor = None\<rparr>,
      \<lparr>fd_value = ''vendor'', fd_category = Text, fd_level = ProductLevel, fd_accessor = None\<rparr>,
      \<lparr>fd_value = ''productType'', fd_category = Text, fd_level = ProductLevel,
        fd_accessor = None\<rparr>,
      \<lparr>fd_value = ''tags'', fd_category = Tags, fd_level = ProductLevel, fd_accessor = None\<rparr>,
      \<lparr>fd_value = ''status'', fd_category = Select, fd_level = ProductLevel, fd_accessor = None\<rparr>,
      \<lparr>fd_value = ''templateSuffix'', fd_category = Text, fd_level = ProductLevel,
        fd_accessor = None\<rparr>]"

definition getFieldDef :: "string \<Rightarrow> fieldDef option" where
  "getFieldDef fieldValue = find (\<lambda>f. fd_value f = fieldValue) EDITABLE_FIELDS"

subsection \<open>Value transformer\<close>

text \<open>The arithmetic of a numeric modification, the \<open>switch\<close> on the change type.\<close>

definition numericChange :: "string \<Rightarrow> jsnum \<Rightarrow> jsnum \<Rightarrow> jsnum" where
  "numericChange ty c v =
     (if ty = ''exact'' then v
      else if ty = ''increase_percent'' then jsMul c (jsAdd (Fin 1) (jsDiv100 v))
      else if ty = ''decrease_percent'' then jsMul c (jsSub (Fin 1) (jsDiv100 v))
      else if ty = ''increase_fixed'' then jsAdd c v
      else if ty = ''decrease_fixed'' then jsSub c v
      else c)"

definition applyRounding :: "string \<Rightarrow> jsnum \<Rightarrow> jsnum" where
  "applyRounding rounding r =
     (if rounding = ''99'' then jsAdd (mathFloor r) (fl (99 / 100))
      else if rounding = ''95'' then jsAdd (mathFloor r) (fl (95 / 100))
      else if rounding = ''whole'' then mathRound r
      else r)"

definition priceFields :: "string list" where
  "priceFields = [''price'', ''compareAtPrice'', ''cost'']"

text \<open>\<open>s.split(",").map(t => t.trim()).filter(Boolean)\<close>.\<close>

definition tagList :: "string \<Rightarrow> string list" where
  "tagList s = filter (\<lambda>t. t \<noteq> []) (map trim (split s '',''))"

definition calcValue :: "string option \<Rightarrow> modification \<Rightarrow> string option" where
  "calcValue current md =
     (case getFieldDef (m_field md) of
        None \<Rightarrow> None
      | Some fieldDef \<Rightarrow>
          if fd_category fieldDef = Numeric then
            (let c = parseFloat (orElse current ''0'');
                 v = parseFloat (m_value md)
             in if isNaN v then None
                else let r = numericChange (m_type md) c v
                     in if m_field md \<in> set priceFields
                        then Some (toFixed 2 (mathMax0 (applyRounding (m_rounding md) r)))
                        else let r' = mathMax0 r
                             in Some (if isWhole r' then numToString r'
                                      else numToString (parseFloat (toFixed 4 r'))))
          else if fd_category fieldDef = Text then
            (let cur = orElse current []
             in if m_type md = ''set'' then Some (m_value md)
                else if m_type md = ''prepend'' then Some (m_value md @ cur)
                else if m_type md = ''append'' then Some (cur @ m_value md)
                else if m_type md = ''find_replace''
                  then Some (join (split cur (m_value md)) (m_value2 md))
                else Some cur)
          else if fd_category fieldDef = Tags then
            (let curTags = tagList (orElse current [])
             in if m_type md = ''add''
                  then Some (join (uniq [] (curTags @ tagList (m_value md))) '', '')
                else if m_type md = ''remove''
                  then (let removeTags = map (\<lambda>t. toLowerCase (trim t)) (split (m_value md) '','')
                        in Some (join (filter (\<lambda>t. toLowerCase t \<notin> set removeTags) curTags) '', ''))
                else if m_type md = ''set'' then Some (m_value md)
                else current)
          else if fd_category fieldDef = Select then Some (m_value md)
          else None)"


subsection \<open>Filter evaluator\<close>

text \<open>The first variant of a product, \<open>product.variants?.edges?.[0]?.node\<close>.\<close>

definition firstVariant :: "product \<Rightarrow> variant option" where
  "firstVariant p = (case variants p of [] \<Rightarrow> None | v # _ \<Rightarrow> Some v)"

definition filterValue :: "product \<Rightarrow> string \<Rightarrow> string" where
  "filterValue p fld =
     (if fld = ''price''
        then orElse (case firstVariant p of None \<Rightarrow> None | Some v \<Rightarrow> price v) []
      else if fld = ''compareAtPrice''
        then orElse (case firstVariant p of None \<Rightarrow> None | Some v \<Rightarrow> compareAtPrice v) []
      else if fld = ''inventoryQuantity''
        then (case (case firstVariant p of None \<Rightarrow> None | Some v \<Rightarrow> inventoryQuantity v) of
                None \<Rightarrow> [] | Some n \<Rightarrow> intToString n)
      else if fld = ''sku''
        then orElse (case firstVariant p of None \<Rightarrow> None | Some v \<Rightarrow> sku v) []
      else if fld = ''weight''
        then (case (case firstVariant p of None \<Rightarrow> None | Some v \<Rightarrow> weight v) of
                None \<Rightarrow> ''0'' | Some w \<Rightarrow> numToString w)
      else if fld = ''templateSuffix'' then orElse (templateSuffix p) []
      else if fld = ''variantTitle'' then join (map v_title (variants p)) '', ''
      else if fld = ''tags'' then join (tags p) '', ''
      else productProp p fld)"

definition numericFilterField :: "string \<Rightarrow> bool" where
  "numericFilterField fld =
     (fld = ''price'' \<or> fld = ''compareAtPrice'' \<or> fld = ''inventoryQuantity'')"

definition evaluateFilter :: "product \<Rightarrow> rule \<Rightarrow> bool" where
  "evaluateFilter p rl =
     (let val = filterValue p (r_field rl);
          v = toLowerCase val;
          rv = toLowerCase (r_value rl);
          rv2 = toLowerCase (r_value2 rl);
          op = r_operator rl
      in if op = ''contains'' then includes_str v rv
         else if op = ''not_contains'' then \<not> includes_str v rv
         else if op = ''equals'' then
           (if numericFilterField (r_field rl)
            then jsEq (parseFloat val) (parseFloat (r_value rl)) else v = rv)
         else if op = ''not_equals'' then
           (if numericFilterField (r_field rl)
            then \<not> jsEq (parseFloat val) (parseFloat (r_value rl)) else v \<noteq> rv)
         else if op = ''starts_with'' then startsWith v rv
         else if op = ''ends_with'' then endsWith v rv
         else if op = ''is_empty'' then val = []
         else if op = ''is_not_empty'' then val \<noteq> []
         else if op = ''greater_than'' then jsLess (parseFloat (r_value rl)) (parseFloat val)
         else if op = ''less_than'' then jsLess (parseFloat val) (parseFloat (r_value rl))
         else if op = ''greater_or_equal'' then jsLessEq (parseFloat (r_value rl)) (parseFloat val)
         else if op = ''less_or_equal'' then jsLessEq (parseFloat val) (parseFloat (r_value rl))
         else if op = ''between'' then
           jsLessEq (parseFloat (r_value rl)) (parseFloat val)
           \<and> jsLessEq (parseFloat val) (parseFloat rv2)
         else True)"

text \<open>The filtered product list of the wizard: a product passes if it passes every rule.\<close>

definition filtered :: "product list \<Rightarrow> rule list \<Rightarrow> product list" where
  "filtered products filterRules = filter (\<lambda>p. list_all (evaluateFilter p) filterRules) products"

subsection \<open>Change planner\<close>

record change =
  productId :: string
  productTitle :: string
  variantId :: "string option"
  variantTitle :: "string option"
  c_field :: string
  oldValue :: string
  newValue :: string
  modificationType :: string

text \<open>The current value of a product-level field.\<close>

definition productCurrent :: "product \<Rightarrow> string \<Rightarrow> string" where
  "productCurrent p fld =
     (if fld = ''tags'' then join (tags p) '', '' else productProp p fld)"

definition productChange :: "product \<Rightarrow> modification \<Rightarrow> change list" where
  "productChange p md =
     (let cur = productCurrent p (m_field md)
      in case calcValue (Some cur) md of
           None \<Rightarrow> []
         | Some nv \<Rightarrow>
             if nv = cur then []
             else [\<lparr>productId = p_id p, productTitle = title p, variantId = None,
                    variantTitle = None, c_field = m_field md, oldValue = cur, newValue = nv,
                    modificationType = m_type md\<rparr>])"

definition variantChange :: "product \<Rightarrow> fieldDef \<Rightarrow> modification \<Rightarrow> variant \<Rightarrow> change list" where
  "variantChange p fieldDef md v =
     (let cur = (case fd_accessor fieldDef of None \<Rightarrow> Some [] | Some acc \<Rightarrow> acc v);
          dflt = (if fd_category fieldDef = Numeric then ''0'' else [])
      in if falsy cur \<and> m_type md \<noteq> ''exact'' \<and> m_type md \<noteq> ''set''
            \<and> fd_category fieldDef = Numeric then []
         else case calcValue (Some (orElse cur dflt)) md of
                None \<Rightarrow> []
              | Some nv \<Rightarrow>
                  if (if fd_category fieldDef = Numeric
                      then jsEq (parseFloat (orElse cur ''0'')) (parseFloat nv)
                      else orElse cur [] = nv) then []
                  else [\<lparr>productId = p_id p, productTitle = title p, variantId = Some (v_id v),
                         variantTitle = Some (v_title v), c_field = m_field md,
                         oldValue = orElse cur dflt, newValue = nv,
                         modificationType = m_type md\<rparr>])"

definition modChanges :: "product \<Rightarrow> modification \<Rightarrow> change list" where
  "modChanges p md =
     (case getFieldDef (m_field md) of
        None \<Rightarrow> []
      | Some fieldDef \<Rightarrow>
          if fd_level fieldDef = ProductLevel then productChange p md
          else concat (map (variantChange p fieldDef md) (variants p)))"

text \<open>
  The preview changeset of the wizard (the memo \<open>changes\<close>), computed on step 3 for the
  selected products and the modifications: products in order, then modifications, then
  variants.
\<close>

definition changes :: "nat \<Rightarrow> product list \<Rightarrow> modification list \<Rightarrow> change list" where
  "changes step selected modifications =
     (if step \<noteq> 3 then []
      else concat (map (\<lambda>p. concat (map (modChanges p) modifications)) selected))"


section \<open>The webhook automation path's engine\<close>

subsection \<open>Field registry and value transformer\<close>

definition EDITABLE_FIELDS_webhook :: "fieldDef list" where
  "EDITABLE_FIELDS_webhook =
     [\<lparr>fd_value = ''price'', fd_category = Numeric, fd_level = VariantLevel,
        fd_accessor = Some price\<rparr>,
      \<lparr>fd_value = ''compareAtPrice'', fd_category = Numeric, fd_level = VariantLevel,
        fd_accessor = Some compareAtPrice\<rparr>,
      \<lparr>fd_value = ''sku'', fd_category = Text, fd_level = VariantLevel,
        fd_accessor = Some (\<lambda>v. Some (orElse (sku v) []))\<rparr>,
      \<lparr>fd_value = ''barcode'', fd_category = Text, fd_level = VariantLevel,
        fd_accessor = Some (\<lambda>v. Some (orElse (barcode v) []))\<rparr>,
      \<lparr>fd_value = ''title'', fd_category = Text, fd_level = ProductLevel, fd_accessor = None\<rparr>,
      \<lparr>fd_value = ''vendor'', fd_category = Text, fd_level = ProductLevel, fd_accessor = None\<rparr>,
      \<lparr>fd_value = ''productType'', fd_category = Text, fd_level = ProductLevel,
        fd_accessor = None\<rparr>,
      \<lparr>fd_value = ''tags'', fd_category = Tags, fd_level = ProductLevel, fd_accessor = None\<rparr>,
      \<lparr>fd_value = ''status'', fd_category = Select, fd_level = ProductLevel, fd_accessor = None\<rparr>]"

definition getFieldDef_webhook :: "string \<Rightarrow> fieldDef option" where
  "getFieldDef_webhook f = find (\<lambda>e. fd_value e = f) EDITABLE_FIELDS_webhook"

definition calcValue_webhook :: "string option \<Rightarrow> modification \<Rightarrow> string option" where
  "calcValue_webhook current md =
     (case getFieldDef_webhook (m_field md) of
        None \<Rightarrow> None
      | Some fieldDef \<Rightarrow>
          if fd_category fieldDef = Numeric then
            (let c = parseFloat (orElse current ''0'');
                 v = parseFloat (m_value md)
             in if isNaN v then None
                else Some (toFixed 2 (mathMax0 (applyRounding (m_rounding md)
                             (numericChange (m_type md) c v)))))
          else if fd_category fieldDef = Text then
            (let cur = orElse current []
             in if m_type md = ''set'' then Some (m_value md)
                else if m_type md = ''prepend'' then Some (m_value md @ cur)
                else if m_type md = ''append'' then Some (cur @ m_value md)
                else if m_type md = ''find_replace''
                  then Some (join (split cur (m_value md)) (m_value2 md))
                else Some cur)
          else if fd_category fieldDef = Tags then
            (let curTags = tagList (orElse current []);
                 newTags = tagList (m_value md)
             in if m_type md = ''add'' then Some (join (uniq [] (curTags @ newTags)) '', '')
                else if m_type md = ''remove''
                  then Some (join (filter (\<lambda>t. t \<notin> set newTags) curTags) '', '')
                else if m_type md = ''set'' then Some (join newTags '', '')
                else current)
          else if fd_category fieldDef = Select \<and> m_type md = ''set'' then Some (m_value md)
          else None)"


subsection \<open>Filter evaluator\<close>

definition matchValue :: "string \<Rightarrow> rule \<Rightarrow> bool" where
  "matchValue val rl =
     (let v = toLowerCase val;
          rv = toLowerCase (r_value rl);
          rv2 = toLowerCase (r_value2 rl);
          op = r_operator rl
      in if op = ''contains'' then includes_str v rv
         else if op = ''not_contains'' then \<not> includes_str v rv
         else if op = ''equals'' then
           (if r_field rl \<in> set [''price'', ''compareAtPrice'', ''inventoryQuantity'']
            then jsEq (parseFloat val) (parseFloat (r_value rl)) else v = rv)
         else if op = ''not_equals'' then
           (if r_field rl \<in> set [''price'', ''compareAtPrice'', ''inventoryQuantity'']
            then \<not> jsEq (parseFloat val) (parseFloat (r_value rl)) else v \<noteq> rv)
         else if op = ''starts_with'' then startsWith v rv
         else if op = ''ends_with'' then endsWith v rv
         else if op = ''is_empty'' then val = []
         else if op = ''is_not_empty'' then val \<noteq> []
         else if op = ''greater_than'' then jsLess (parseFloat (r_value rl)) (parseFloat val)
         else if op = ''less_than'' then jsLess (parseFloat val) (parseFloat (r_value rl))
         else if op = ''greater_or_equal'' then jsLessEq (parseFloat (r_value rl)) (parseFloat val)
         else if op = ''less_or_equal'' then jsLessEq (parseFloat val) (parseFloat (r_value rl))
         else if op = ''between'' then
           jsLessEq (parseFloat (r_value rl)) (parseFloat val)
           \<and> jsLessEq (parseFloat val) (parseFloat rv2)
         else True)"

text \<open>
  \<open>String(v[rule.field] || "")\<close> for the variant-level filter fields. An inventory
  quantity is a number, and the number \<open>0\<close> is falsy.
\<close>

definition variantFilterValue :: "variant \<Rightarrow> string \<Rightarrow> string" where
  "variantFilterValue v fld =
     (if fld = ''price'' then orElse (price v) []
      else if fld = ''compareAtPrice'' then orElse (compareAtPrice v) []
      else if fld = ''sku'' then orElse (sku v) []
      else if fld = ''barcode'' then orElse (barcode v) []
      else if fld = ''inventoryQuantity''
        then (case inventoryQuantity v of
                None \<Rightarrow> [] | Some n \<Rightarrow> if n = 0 then [] else intToString n)
      else [])"

definition evaluateFilter_webhook :: "product \<Rightarrow> rule \<Rightarrow> bool" where
  "evaluateFilter_webhook p rl =
     (if r_field rl \<in> set [''price'', ''compareAtPrice'', ''sku'', ''barcode'', ''inventoryQuantity'']
      then list_ex (\<lambda>v. matchValue (variantFilterValue v (r_field rl)) rl) (variants p)
      else matchValue (if r_field rl = ''tags'' then join (tags p) '', ''
                       else productProp p (r_field rl)) rl)"


section \<open>Batch executor and reversal path (the wizard's server action)\<close>

subsection \<open>The external catalog and the stores\<close>

text \<open>
  The two mutations of the catalog. A field of an input object that the action did not
  set is \<open>None\<close>. \<open>vi_weight\<close> is \<open>inventoryItem.measurement.weight.value\<close>, its unit
  always pounds.
\<close>

record productInput =
  pi_title :: "string option"
  pi_vendor :: "string option"
  pi_productType :: "string option"
  pi_status :: "string option"
  pi_tags :: "string list option"
  pi_templateSuffix :: "string option"

record variantInput =
  vi_id :: "string option"
  vi_price :: "string option"
  vi_compareAtPrice :: "string option"
  vi_sku :: "string option"
  vi_barcode :: "string option"
  vi_weight :: "jsnum option"

datatype request =
    ProductUpdate string productInput
  | VariantsBulkUpdate string "variantInput list"

text \<open>
  The catalog answers a mutation with its list of user errors (empty on success), or the
  call throws. Within one run every request names another product or another mutation,
  so a function from the request to the answer describes any behaviour of the catalog.
\<close>

datatype response = Throws string | UserErrors "string list"

type_synonym catalog = "request \<Rightarrow> response"

record historyRecord =
  h_shop :: string
  h_productId :: string
  h_variantId :: "string option"
  h_productTitle :: string
  h_variantTitle :: "string option"
  h_oldPrice :: string
  h_newPrice :: string
  h_changeType :: string
  h_changeSource :: string

record shopPlanRow =
  plan :: string
  monthlyEdits :: int

record bulkEditRow =
  be_shop :: string
  be_name :: string
  be_status :: string
  be_productCount :: nat
  be_changes :: "change list"

text \<open>
  The observable state: the row of the shop in the plan table (if any), the audit tables,
  and the mutations issued to the catalog so far.
\<close>

record world =
  shopPlan :: "shopPlanRow option"
  priceHistory :: "historyRecord list"
  bulkEdit :: "bulkEditRow list"
  issued :: "request list"

subsection \<open>Objects used as dictionaries\<close>

text \<open>
  The action collects changes in plain objects keyed by an id. Such an object is an
  association list in insertion order. \<open>Object.entries\<close> and \<open>Object.values\<close> list the
  keys that are array indices (canonical numerals up to \<open>2^32 - 2\<close>) first, in ascending
  order, then the other keys in insertion order. Keys that collide with a name inherited
  from the prototype of objects are not modelled.
\<close>

definition isArrayIndex :: "string \<Rightarrow> bool" where
  "isArrayIndex k =
     (k \<noteq> [] \<and> list_all isDigit k \<and> (k = ''0'' \<or> \<not> startsWith k ''0'')
      \<and> digitsVal k \<le> 4294967294)"

definition objectEntries :: "(string \<times> 'a) list \<Rightarrow> (string \<times> 'a) list" where
  "objectEntries kvs =
     sort_key (\<lambda>kv. digitsVal (fst kv)) (filter (\<lambda>kv. isArrayIndex (fst kv)) kvs)
     @ filter (\<lambda>kv. \<not> isArrayIndex (fst kv)) kvs"

text \<open>\<open>changesByProduct\<close>: the changes of each product id, in order.\<close>

fun addToGroup :: "(string \<times> change list) list \<Rightarrow> change \<Rightarrow> (string \<times> change list) list" where
  "addToGroup [] c = [(productId c, [c])]"
| "addToGroup ((k, cs) # gs) c =
     (if k = productId c then (k, cs @ [c]) # gs else (k, cs) # addToGroup gs c)"

definition groupByProduct :: "change list \<Rightarrow> (string \<times> change list) list" where
  "groupByProduct cs = objectEntries (foldl addToGroup [] cs)"

subsection \<open>Execute\<close>

definition productLevelFields :: "string list" where
  "productLevelFields = [''title'', ''vendor'', ''productType'', ''status'', ''tags'', ''templateSuffix'']"

definition variantLevelFields :: "string list" where
  "variantLevelFields = [''price'', ''compareAtPrice'', ''sku'', ''barcode'', ''weight'', ''taxable'']"

definition emptyProductInput :: productInput where
  "emptyProductInput = \<lparr>pi_title = None, pi_vendor = None, pi_productType = None,
     pi_status = None, pi_tags = None, pi_templateSuffix = None\<rparr>"

definition setProductField :: "productInput \<Rightarrow> change \<Rightarrow> productInput" where
  "setProductField inp c =
     (if c_field c = ''title'' then inp\<lparr>pi_title := Some (newValue c)\<rparr>
      else if c_field c = ''vendor'' then inp\<lparr>pi_vendor := Some (newValue c)\<rparr>
      else if c_field c = ''productType'' then inp\<lparr>pi_productType := Some (newValue c)\<rparr>
      else if c_field c = ''status'' then inp\<lparr>pi_status := Some (newValue c)\<rparr>
      else if c_field c = ''tags'' then inp\<lparr>pi_tags := Some (tagList (newValue c))\<rparr>
      else if c_field c = ''templateSuffix'' then inp\<lparr>pi_templateSuffix := Some (newValue c)\<rparr>
      else inp)"

definition emptyVariantInput :: "string option \<Rightarrow> variantInput" where
  "emptyVariantInput i = \<lparr>vi_id = i, vi_price = None, vi_compareAtPrice = None,
     vi_sku = None, vi_barcode = None, vi_weight = None\<rparr>"

definition setVariantField :: "variantInput \<Rightarrow> change \<Rightarrow> variantInput" where
  "setVariantField v c =
     (if c_field c = ''price'' then v\<lparr>vi_price := Some (newValue c)\<rparr>
      else if c_field c = ''compareAtPrice'' then v\<lparr>vi_compareAtPrice := Some (newValue c)\<rparr>
      else if c_field c = ''sku'' then v\<lparr>vi_sku := Some (newValue c)\<rparr>
      else if c_field c = ''barcode'' then v\<lparr>vi_barcode := Some (newValue c)\<rparr>
      else if c_field c = ''weight'' then v\<lparr>vi_weight := Some (parseFloat (newValue c))\<rparr>
      else v)"

text \<open>
  \<open>variantMap\<close>: one input per variant id. The key of a change without variant id is
  the text \<open>null\<close>.
\<close>

definition variantKey :: "change \<Rightarrow> string" where
  "variantKey c = (case variantId c of None \<Rightarrow> ''null'' | Some i \<Rightarrow> i)"

definition addToVariantMap ::
  "(string \<times> variantInput) list \<Rightarrow> change \<Rightarrow> (string \<times> variantInput) list" where
  "addToVariantMap vm c =
     (if variantKey c \<in> fst ` set vm
      then map (\<lambda>kv. if fst kv = variantKey c then (fst kv, setVariantField (snd kv) c) else kv) vm
      else vm @ [(variantKey c, setVariantField (emptyVariantInput (variantId c)) c)])"

definition buildVariants :: "change list \<Rightarrow> variantInput list" where
  "buildVariants cs = map snd (objectEntries (foldl addToVariantMap [] cs))"

record execState =
  successCount :: nat
  errorCount :: nat
  errors :: "(string option \<times> string list) list"
  historyRecords :: "historyRecord list"
  sent :: "request list"

text \<open>
  The history record of an applied change. For a product-level change the variant id of
  the record is \<open>change.variantId || productId\<close>; for a variant-level change it is
  \<open>change.variantId\<close> as it is.
\<close>

definition historyOf :: "string \<Rightarrow> string option \<Rightarrow> change \<Rightarrow> historyRecord" where
  "historyOf shop vid c =
     \<lparr>h_shop = shop, h_productId = productId c, h_variantId = vid,
      h_productTitle = productTitle c,
      h_variantTitle = (if falsy (variantTitle c) then None else variantTitle c),
      h_oldPrice = oldValue c, h_newPrice = newValue c, h_changeType = c_field c,
      h_changeSource = ''bulk_edit''\<rparr>"

definition productHistory :: "string \<Rightarrow> string \<Rightarrow> change \<Rightarrow> historyRecord" where
  "productHistory shop pid c = historyOf shop (Some (orElse (variantId c) pid)) c"

definition variantHistory :: "string \<Rightarrow> change \<Rightarrow> historyRecord" where
  "variantHistory shop c = historyOf shop (variantId c) c"

text \<open>\<open>productChanges[0]?.productTitle\<close>.\<close>

definition firstTitle :: "change list \<Rightarrow> string option" where
  "firstTitle cs = (case cs of [] \<Rightarrow> None | c # _ \<Rightarrow> Some (productTitle c))"

text \<open>
  One mutation of one product, with its accounting. The result is \<open>Inl\<close> when the call
  throws: the exception leaves the \<open>try\<close> block with the counters as they are.
\<close>

definition applyRequest ::
  "catalog \<Rightarrow> (change \<Rightarrow> historyRecord) \<Rightarrow> change list \<Rightarrow> request \<Rightarrow> change list
     \<Rightarrow> execState \<Rightarrow> (string \<times> execState) + execState" where
  "applyRequest cat hist productChanges req cs st =
     (let st1 = st\<lparr>sent := sent st @ [req]\<rparr>
      in case cat req of
           Throws msg \<Rightarrow> Inl (msg, st1)
         | UserErrors userErrors \<Rightarrow>
             if userErrors \<noteq> []
             then Inr (st1\<lparr>errorCount := errorCount st1 + length cs,
                          errors := errors st1 @ [(firstTitle productChanges, userErrors)]\<rparr>)
             else Inr (st1\<lparr>successCount := successCount st1 + length cs,
                          historyRecords := historyRecords st1 @ map hist cs\<rparr>))"

definition processProduct ::
  "catalog \<Rightarrow> string \<Rightarrow> execState \<Rightarrow> string \<times> change list \<Rightarrow> execState" where
  "processProduct cat shop st g =
     (let pid = fst g;
          productChanges = snd g;
          productLevelChanges = filter (\<lambda>c. c_field c \<in> set productLevelFields) productChanges;
          variantLevelChanges = filter (\<lambda>c. c_field c \<in> set variantLevelFields) productChanges;
          r1 = (if productLevelChanges \<noteq> []
                then applyRequest cat (productHistory shop pid) productChanges
                       (ProductUpdate pid (foldl setProductField emptyProductInput productLevelChanges))
                       productLevelChanges st
                else Inr st);
          r2 = (case r1 of
                  Inl e \<Rightarrow> Inl e
                | Inr st1 \<Rightarrow>
                    if variantLevelChanges \<noteq> []
                    then applyRequest cat (variantHistory shop) productChanges
                           (VariantsBulkUpdate pid (buildVariants variantLevelChanges))
                           variantLevelChanges st1
                    else Inr st1)
      in case r2 of
           Inr st2 \<Rightarrow> st2
         | Inl (msg, st2) \<Rightarrow>
             st2\<lparr>errorCount := errorCount st2 + length productChanges,
                 errors := errors st2 @ [(firstTitle productChanges,
                                           [if msg = [] then ''Unknown error'' else msg])]\<rparr>)"

datatype editsLimit = Limit int | Infinity

definition PLAN_LIMITS :: "string \<Rightarrow> editsLimit" where
  "PLAN_LIMITS p =
     (if p = ''free'' then Limit 3 else if p = ''pro'' then Limit 50
      else if p = ''plus'' then Infinity else Limit 3)"

record report =
  rp_successCount :: nat
  rp_errorCount :: nat
  rp_errors :: "(string option \<times> string list) list"
  rp_totalProducts :: nat

datatype actionResult =
    LimitReached string int editsLimit
  | Executed report
  | Reverted nat nat

text \<open>The row a missing shop gets: the defaults of the table.\<close>

definition defaultShopPlan :: shopPlanRow where
  "defaultShopPlan = \<lparr>plan = ''free'', monthlyEdits = 0\<rparr>"

definition execute ::
  "catalog \<Rightarrow> string \<Rightarrow> string \<Rightarrow> change list \<Rightarrow> world \<Rightarrow> actionResult \<times> world" where
  "execute cat shop editName chs w =
     (let row = (case shopPlan w of None \<Rightarrow> defaultShopPlan | Some r \<Rightarrow> r);
          w1 = w\<lparr>shopPlan := Some row\<rparr>;
          pl = (if plan row = [] then ''free'' else plan row);
          editsLimit = PLAN_LIMITS pl
      in if (case editsLimit of Infinity \<Rightarrow> False | Limit n \<Rightarrow> n \<le> monthlyEdits row)
         then (LimitReached pl (monthlyEdits row) editsLimit, w1)
         else
           (let changesByProduct = groupByProduct chs;
                st = foldl (processProduct cat shop)
                       \<lparr>successCount = 0, errorCount = 0, errors = [], historyRecords = [],
                        sent = []\<rparr> changesByProduct;
                w2 = w1\<lparr>issued := issued w1 @ sent st,
                         priceHistory := priceHistory w1 @ historyRecords st\<rparr>;
                w3 = w2\<lparr>bulkEdit := bulkEdit w2 @
                           [\<lparr>be_shop = shop, be_name = editName,
                             be_status = (if errorCount st = 0 then ''completed'' else ''partial''),
                             be_productCount = successCount st,
                             be_changes = take 50 chs\<rparr>]\<rparr>;
                w4 = w3\<lparr>shopPlan := Some (row\<lparr>monthlyEdits := monthlyEdits row + 1\<rparr>)\<rparr>
            in (Executed \<lparr>rp_successCount = successCount st, rp_errorCount = errorCount st,
                          rp_errors = errors st, rp_totalProducts = length changesByProduct\<rparr>,
                w4)))"

subsection \<open>Revert\<close>










section \<open>Notions of the specification and example inputs\<close>

text \<open>A string formatted to exactly two decimal places: digits, a point, two digits.\<close>

definition twoDecimals :: "string \<Rightarrow> bool" where
  "twoDecimals s =
     (case rev s of
        d2 # d1 # dot # ds \<Rightarrow>
          isDigit d2 \<and> isDigit d1 \<and> dot = CHR ''.'' \<and> ds \<noteq> [] \<and> list_all isDigit ds
      | _ \<Rightarrow> False)"

definition priceMod :: "string \<Rightarrow> string \<Rightarrow> string \<Rightarrow> modification" where
  "priceMod ty v rd =
     \<lparr>m_field = ''price'', m_type = ty, m_value = v, m_value2 = [], m_rounding = rd\<rparr>"

definition fieldMod :: "string \<Rightarrow> string \<Rightarrow> string \<Rightarrow> modification" where
  "fieldMod fld ty v =
     \<lparr>m_field = fld, m_type = ty, m_value = v, m_value2 = [], m_rounding = ''none''\<rparr>"

definition pricedVariant :: "string \<Rightarrow> string \<Rightarrow> variant" where
  "pricedVariant i p =
     \<lparr>v_id = i, v_title = ''Default Title'', price = Some p, compareAtPrice = None,
      sku = Some [], barcode = Some [], inventoryQuantity = Some 0, weight = None\<rparr>"

definition productWith :: "string \<Rightarrow> variant list \<Rightarrow> product" where
  "productWith i vs =
     \<lparr>p_id = i, title = ''Shirt'', handle = ''shirt'', status = ''ACTIVE'',
      productType = ''Apparel'', vendor = ''Acme'', templateSuffix = None,
      featuredMedia = False,
      tags = [''sale'', ''clearance''], variants = vs\<rparr>"

definition priceRule :: "string \<Rightarrow> string \<Rightarrow> rule" where
  "priceRule op v = \<lparr>r_field = ''price'', r_operator = op, r_value = v, r_value2 = []\<rparr>"


definition exampleWorld :: "int \<Rightarrow> world" where
  "exampleWorld n =
     \<lparr>shopPlan = Some \<lparr>plan = ''free'', monthlyEdits = n\<rparr>, priceHistory = [], bulkEdit = [],
      issued = []\<rparr>"


definition plannedChange :: change where
  "plannedChange =
     \<lparr>productId = ''P1'', productTitle = ''Shirt'', variantId = Some ''V1'',
      variantTitle = Some ''Default Title'', c_field = ''price'', oldValue = ''10.00'',
      newValue = ''15.00'', modificationType = ''increase_fixed''\<rparr>"



definition titleChange :: change where
  "titleChange =
     \<lparr>productId = ''P1'', productTitle = ''Shirt'', variantId = None, variantTitle = None,
      c_field = ''title'', oldValue = ''Shirt'', newValue = ''Shirt!'',
      modificationType = ''append''\<rparr>"



definition priceChange :: change where
  "priceChange =
     \<lparr>productId = ''P1'', productTitle = ''Shirt'', variantId = Some ''V1'',
      variantTitle = Some ''Default Title'', c_field = ''price'', oldValue = ''10.00'',
      newValue = ''15.00'', modificationType = ''increase_fixed''\<rparr>"

text \<open>
  The accounting of one product's group of changes, read off the answers of the catalog.
  The product-level request is made when the group has product-level changes; the
  variant-level request is made when the group has variant-level changes and the
  product-level call did not throw.
\<close>

definition plChanges :: "string \<times> change list \<Rightarrow> change list" where
  "plChanges g = filter (\<lambda>c. c_field c \<in> set productLevelFields) (snd g)"

definition vlChanges :: "string \<times> change list \<Rightarrow> change list" where
  "vlChanges g = filter (\<lambda>c. c_field c \<in> set variantLevelFields) (snd g)"

definition plRequest :: "string \<times> change list \<Rightarrow> request" where
  "plRequest g = ProductUpdate (fst g) (foldl setProductField emptyProductInput (plChanges g))"

definition vlRequest :: "string \<times> change list \<Rightarrow> request" where
  "vlRequest g = VariantsBulkUpdate (fst g) (buildVariants (vlChanges g))"

definition threw :: "response \<Rightarrow> bool" where
  "threw a = (case a of Throws msg \<Rightarrow> True | UserErrors es \<Rightarrow> False)"

definition succeeded :: "response \<Rightarrow> bool" where
  "succeeded a = (case a of Throws msg \<Rightarrow> False | UserErrors es \<Rightarrow> es = [])"

definition plMade :: "string \<times> change list \<Rightarrow> bool" where
  "plMade g = (plChanges g \<noteq> [])"

definition vlMade :: "catalog \<Rightarrow> string \<times> change list \<Rightarrow> bool" where
  "vlMade cat g = (vlChanges g \<noteq> [] \<and> \<not> (plMade g \<and> threw (cat (plRequest g))))"

text \<open>What one request adds to the error count and to the list of errors.\<close>

definition requestErrors :: "change list \<Rightarrow> change list \<Rightarrow> response \<Rightarrow> nat" where
  "requestErrors productChanges cs a =
     (case a of
        Throws msg \<Rightarrow> length productChanges
      | UserErrors es \<Rightarrow> if es = [] then 0 else length cs)"

definition requestErrorEntries ::
  "change list \<Rightarrow> response \<Rightarrow> (string option \<times> string list) list" where
  "requestErrorEntries productChanges a =
     (case a of
        Throws msg \<Rightarrow> [(firstTitle productChanges, [if msg = [] then ''Unknown error'' else msg])]
      | UserErrors es \<Rightarrow> if es = [] then [] else [(firstTitle productChanges, es)])"

definition groupSuccess :: "catalog \<Rightarrow> string \<times> change list \<Rightarrow> nat" where
  "groupSuccess cat g =
     (if plMade g \<and> succeeded (cat (plRequest g)) then length (plChanges g) else 0)
     + (if vlMade cat g \<and> succeeded (cat (vlRequest g)) then length (vlChanges g) else 0)"

definition groupErrors :: "catalog \<Rightarrow> string \<times> change list \<Rightarrow> nat" where
  "groupErrors cat g =
     (if plMade g then requestErrors (snd g) (plChanges g) (cat (plRequest g)) else 0)
     + (if vlMade cat g then requestErrors (snd g) (vlChanges g) (cat (vlRequest g)) else 0)"

definition groupErrorEntries ::
  "catalog \<Rightarrow> string \<times> change list \<Rightarrow> (string option \<times> string list) list" where
  "groupErrorEntries cat g =
     (if plMade g then requestErrorEntries (snd g) (cat (plRequest g)) else [])
     @ (if vlMade cat g then requestErrorEntries (snd g) (cat (vlRequest g)) else [])"

definition groupHistory :: "catalog \<Rightarrow> string \<Rightarrow> string \<times> change list \<Rightarrow> historyRecord list" where
  "groupHistory cat shop g =
     (if plMade g \<and> succeeded (cat (plRequest g))
      then map (productHistory shop (fst g)) (plChanges g) else [])
     @ (if vlMade cat g \<and> succeeded (cat (vlRequest g))
        then map (variantHistory shop) (vlChanges g) else [])"

definition groupSent :: "catalog \<Rightarrow> string \<times> change list \<Rightarrow> request list" where
  "groupSent cat g =
     (if plMade g then [plRequest g] else []) @ (if vlMade cat g then [vlRequest g] else [])"

text \<open>The quota check of \<open>execute\<close>.\<close>

definition planOf :: "world \<Rightarrow> shopPlanRow" where
  "planOf w = (case shopPlan w of None \<Rightarrow> defaultShopPlan | Some r \<Rightarrow> r)"

definition limitReached :: "world \<Rightarrow> bool" where
  "limitReached w =
     (case PLAN_LIMITS (if plan (planOf w) = [] then ''free'' else plan (planOf w)) of
        Infinity \<Rightarrow> False
      | Limit n \<Rightarrow> n \<le> monthlyEdits (planOf w))"

text \<open>A catalog that accepts product updates and throws on variant updates.\<close>

definition variantsFail :: catalog where
  "variantsFail r =
     (case r of ProductUpdate pid inp \<Rightarrow> UserErrors [] | VariantsBulkUpdate pid vs \<Rightarrow> Throws ''boom'')"

section \<open>Verified properties\<close>

subsection \<open>The two engines on the specification's examples\<close>

text \<open>
  Claim C1. A product with variants priced \<open>5.00\<close> and \<open>50.00\<close> and the rule
  \<open>price greater_than 20\<close>: the webhook's evaluator matches (the second variant
  qualifies), the wizard's evaluator reads the first variant only and does not match.
  With the value \<open>100\<close> neither matches.
\<close>

theorem evaluateFilter_reads_first_variant_only:
  "evaluateFilter
     (productWith ''P1'' [pricedVariant ''V1'' ''5.00'', pricedVariant ''V2'' ''50.00''])
     (priceRule ''greater_than'' ''20'') = False
   \<and> evaluateFilter_webhook
     (productWith ''P1'' [pricedVariant ''V1'' ''5.00'', pricedVariant ''V2'' ''50.00''])
     (priceRule ''greater_than'' ''20'') = True
   \<and> evaluateFilter
     (productWith ''P1'' [pricedVariant ''V1'' ''5.00'', pricedVariant ''V2'' ''50.00''])
     (priceRule ''greater_than'' ''100'') = False
   \<and> evaluateFilter_webhook
     (productWith ''P1'' [pricedVariant ''V1'' ''5.00'', pricedVariant ''V2'' ''50.00''])
     (priceRule ''greater_than'' ''100'') = False"
proof -
  let ?p = "productWith ''P1'' [pricedVariant ''V1'' ''5.00'', pricedVariant ''V2'' ''50.00'']"
  have a: "evaluateFilter ?p (priceRule ''greater_than'' ''20'') = False"
    unfolding productWith_def pricedVariant_def priceRule_def by code_simp
  have b: "evaluateFilter_webhook ?p (priceRule ''greater_than'' ''20'') = True"
    unfolding productWith_def pricedVariant_def priceRule_def by code_simp
  have c: "evaluateFilter ?p (priceRule ''greater_than'' ''100'') = False"
    unfolding productWith_def pricedVariant_def priceRule_def by code_simp
  have d: "evaluateFilter_webhook ?p (priceRule ''greater_than'' ''100'') = False"
    unfolding productWith_def pricedVariant_def priceRule_def by code_simp
  from a b c d show ?thesis by (simp only: simp_thms)
qed

text \<open>
  Claim C2. The two engines differ. Replacing all tags by \<open>a,b\<close> gives \<open>a,b\<close> in the
  wizard and \<open>a, b\<close> in the webhook; a status modification whose type is not \<open>set\<close> is
  computed by the wizard and refused by the webhook; a barcode rule is evaluated on the
  variants by the webhook and on the product (which has no barcode) by the wizard.
\<close>

theorem engines_differ:
  "calcValue (Some ''x'') (fieldMod ''tags'' ''set'' ''a,b'') = Some ''a,b''
   \<and> calcValue_webhook (Some ''x'') (fieldMod ''tags'' ''set'' ''a,b'') = Some ''a, b''
   \<and> calcValue (Some ''ACTIVE'') (fieldMod ''status'' ''replace'' ''DRAFT'') = Some ''DRAFT''
   \<and> calcValue_webhook (Some ''ACTIVE'') (fieldMod ''status'' ''replace'' ''DRAFT'') = None
   \<and> evaluateFilter
         (productWith ''P1'' [(pricedVariant ''V1'' ''5.00'')\<lparr>barcode := Some ''123''\<rparr>])
         \<lparr>r_field = ''barcode'', r_operator = ''equals'', r_value = ''123'', r_value2 = []\<rparr>
       = False
   \<and> evaluateFilter_webhook
         (productWith ''P1'' [(pricedVariant ''V1'' ''5.00'')\<lparr>barcode := Some ''123''\<rparr>])
         \<lparr>r_field = ''barcode'', r_operator = ''equals'', r_value = ''123'', r_value2 = []\<rparr>
       = True"
proof -
  have a: "calcValue (Some ''x'') (fieldMod ''tags'' ''set'' ''a,b'') = Some ''a,b''"
    unfolding fieldMod_def by code_simp
  have b: "calcValue_webhook (Some ''x'') (fieldMod ''tags'' ''set'' ''a,b'') = Some ''a, b''"
    unfolding fieldMod_def by code_simp
  have c: "calcValue (Some ''ACTIVE'') (fieldMod ''status'' ''replace'' ''DRAFT'') = Some ''DRAFT''"
    unfolding fieldMod_def by code_simp
  have d: "calcValue_webhook (Some ''ACTIVE'') (fieldMod ''status'' ''replace'' ''DRAFT'') = None"
    unfolding fieldMod_def by code_simp
  have e: "evaluateFilter
         (productWith ''P1'' [(pricedVariant ''V1'' ''5.00'')\<lparr>barcode := Some ''123''\<rparr>])
         \<lparr>r_field = ''barcode'', r_operator = ''equals'', r_value = ''123'', r_value2 = []\<rparr>
       = False"
    unfolding productWith_def pricedVariant_def by code_simp
  have f: "evaluateFilter_webhook
         (productWith ''P1'' [(pricedVariant ''V1'' ''5.00'')\<lparr>barcode := Some ''123''\<rparr>])
         \<lparr>r_field = ''barcode'', r_operator = ''equals'', r_value = ''123'', r_value2 = []\<rparr>
       = True"
    unfolding productWith_def pricedVariant_def by code_simp
  from a b c d e f show ?thesis by (simp only: simp_thms)
qed

text \<open>
  Claim C6. Current tags \<open>sale, clearance\<close> and the removal of \<open>Sale\<close>: the wizard's
  transformer compares in lower case and gives \<open>clearance\<close>; the webhook's transformer
  compares the tags as they are and removes nothing.
\<close>

theorem tag_removal_case:
  "calcValue (Some ''sale, clearance'') (fieldMod ''tags'' ''remove'' ''Sale'') = Some ''clearance''
   \<and> calcValue_webhook (Some ''sale, clearance'') (fieldMod ''tags'' ''remove'' ''Sale'')
       = Some ''sale, clearance''"
proof -
  have a: "calcValue (Some ''sale, clearance'') (fieldMod ''tags'' ''remove'' ''Sale'')
             = Some ''clearance''"
    unfolding fieldMod_def by code_simp
  have b: "calcValue_webhook (Some ''sale, clearance'') (fieldMod ''tags'' ''remove'' ''Sale'')
             = Some ''sale, clearance''"
    unfolding fieldMod_def by code_simp
  from a b show ?thesis by (simp only: simp_thms)
qed

subsection \<open>Quota precondition\<close>



subsection \<open>The field registry\<close>

lemma getFieldDef_price:
  "getFieldDef ''price'' = Some \<lparr>fd_value = ''price'', fd_category = Numeric,
     fd_level = VariantLevel, fd_accessor = Some price\<rparr>"
  by (simp add: getFieldDef_def EDITABLE_FIELDS_def)


lemma getFieldDef_Some:
  assumes "getFieldDef f = Some fd"
  shows "fd \<in> set EDITABLE_FIELDS \<and> fd_value fd = f"
  using assms unfolding getFieldDef_def by (auto simp: find_Some_iff)

lemma numeric_is_variant_level:
  assumes "getFieldDef f = Some fd" "fd_category fd = Numeric"
  shows "fd_level fd = VariantLevel"
  using getFieldDef_Some[OF assms(1)] assms(2) by (auto simp: EDITABLE_FIELDS_def)

lemma product_level_not_numeric:
  assumes "getFieldDef f = Some fd" "fd_level fd = ProductLevel"
  shows "fd_category fd \<noteq> Numeric"
  using numeric_is_variant_level[OF assms(1)] assms(2) by auto

subsection \<open>No-op suppression\<close>

lemma productChange_differs:
  assumes "c \<in> set (productChange p md)"
  shows "c_field c = m_field md \<and> oldValue c \<noteq> newValue c"
  using assms
  by (auto simp: productChange_def Let_def split: option.splits if_splits)

lemma variantChange_differs:
  assumes "c \<in> set (variantChange p fd md v)"
  shows "c_field c = m_field md
         \<and> (if fd_category fd = Numeric
             then \<not> jsEq (parseFloat (oldValue c)) (parseFloat (newValue c))
             else oldValue c \<noteq> newValue c)"
  using assms
  by (auto simp: variantChange_def Let_def split: option.splits if_splits)

lemma modChanges_differs:
  assumes "c \<in> set (modChanges p md)"
  shows "\<exists>fd. getFieldDef (c_field c) = Some fd
           \<and> (if fd_category fd = Numeric
                then \<not> jsEq (parseFloat (oldValue c)) (parseFloat (newValue c))
                else oldValue c \<noteq> newValue c)"
proof (cases "getFieldDef (m_field md)")
  case None
  with assms show ?thesis by (simp add: modChanges_def)
next
  case (Some fd)
  show ?thesis
  proof (cases "fd_level fd = ProductLevel")
    case True
    with Some assms have "c \<in> set (productChange p md)" by (simp add: modChanges_def)
    from productChange_differs[OF this] have "c_field c = m_field md" "oldValue c \<noteq> newValue c"
      by simp_all
    moreover have "fd_category fd \<noteq> Numeric" using product_level_not_numeric[OF Some True] .
    ultimately show ?thesis using Some by simp
  next
    case False
    with Some assms obtain v where "c \<in> set (variantChange p fd md v)"
      by (auto simp: modChanges_def)
    from variantChange_differs[OF this] show ?thesis using Some by simp
  qed
qed

lemma changes_member:
  assumes "c \<in> set (changes step selected modifications)"
  shows "step = 3 \<and> (\<exists>p \<in> set selected. \<exists>md \<in> set modifications. c \<in> set (modChanges p md))"
  using assms by (auto simp: changes_def split: if_splits)

text \<open>
  Claim C5. Every change the planner emits has an old value that differs from its new
  value under the equality of its field: equality of the parsed numbers for a numeric
  field, equality of the strings otherwise. A product-level field whose computed value is
  its current value yields no change, and neither does a variant whose computed value
  equals the current one under that equality. Planning the exact price \<open>10.00\<close> for a
  variant priced \<open>10.00\<close> yields the empty changeset.
\<close>

theorem no_op_suppression:
  "(\<forall>c \<in> set (changes step selected modifications).
      \<exists>fd. getFieldDef (c_field c) = Some fd
        \<and> (if fd_category fd = Numeric
             then \<not> jsEq (parseFloat (oldValue c)) (parseFloat (newValue c))
             else oldValue c \<noteq> newValue c))
   \<and> (calcValue (Some (productCurrent p (m_field md))) md = Some (productCurrent p (m_field md))
        \<longrightarrow> productChange p md = [])
   \<and> (fd_category fd = Numeric \<and> fd_accessor fd = Some acc
        \<and> calcValue (Some (orElse (acc v) ''0'')) md = Some nv
        \<and> jsEq (parseFloat (orElse (acc v) ''0'')) (parseFloat nv)
        \<longrightarrow> variantChange p fd md v = [])
   \<and> (fd_category fd \<noteq> Numeric \<and> fd_accessor fd = Some acc
        \<and> calcValue (Some (orElse (acc v) [])) md = Some (orElse (acc v) [])
        \<longrightarrow> variantChange p fd md v = [])
   \<and> changes 3 [productWith ''P1'' [pricedVariant ''V1'' ''10.00'']]
         [priceMod ''exact'' ''10.00'' ''none''] = []"
proof -
  have a: "\<forall>c \<in> set (changes step selected modifications).
      \<exists>fd. getFieldDef (c_field c) = Some fd
        \<and> (if fd_category fd = Numeric
             then \<not> jsEq (parseFloat (oldValue c)) (parseFloat (newValue c))
             else oldValue c \<noteq> newValue c)"
    using changes_member modChanges_differs by blast
  have b: "calcValue (Some (productCurrent p (m_field md))) md = Some (productCurrent p (m_field md))
        \<longrightarrow> productChange p md = []"
    by (simp add: productChange_def Let_def)
  have c: "fd_category fd = Numeric \<and> fd_accessor fd = Some acc
        \<and> calcValue (Some (orElse (acc v) ''0'')) md = Some nv
        \<and> jsEq (parseFloat (orElse (acc v) ''0'')) (parseFloat nv)
        \<longrightarrow> variantChange p fd md v = []"
    by (simp add: variantChange_def Let_def)
  have d: "fd_category fd \<noteq> Numeric \<and> fd_accessor fd = Some acc
        \<and> calcValue (Some (orElse (acc v) [])) md = Some (orElse (acc v) [])
        \<longrightarrow> variantChange p fd md v = []"
    by (simp add: variantChange_def Let_def)
  have e: "changes 3 [productWith ''P1'' [pricedVariant ''V1'' ''10.00'']]
         [priceMod ''exact'' ''10.00'' ''none''] = []"
    unfolding productWith_def pricedVariant_def priceMod_def by code_simp
  from a b c d e show ?thesis by blast
qed

theorem no_op_suppression_witness:
  "plannedChange \<in> set (changes 3 [productWith ''P1'' [pricedVariant ''V1'' ''10.00'']]
                           [priceMod ''increase_fixed'' ''5'' ''none''])
   \<and> \<not> jsEq (parseFloat ''10.00'') (parseFloat ''15.00'')"
proof -
  have m: "changes 3 [productWith ''P1'' [pricedVariant ''V1'' ''10.00'']]
             [priceMod ''increase_fixed'' ''5'' ''none''] = [plannedChange]"
    unfolding productWith_def pricedVariant_def priceMod_def plannedChange_def by code_simp
  then have i: "plannedChange \<in> set (changes 3 [productWith ''P1'' [pricedVariant ''V1'' ''10.00'']]
                           [priceMod ''increase_fixed'' ''5'' ''none''])"
    by simp
  from no_op_suppression [of 3 "[productWith ''P1'' [pricedVariant ''V1'' ''10.00'']]"
        "[priceMod ''increase_fixed'' ''5'' ''none'']"] i
  have "\<exists>fd. getFieldDef (c_field plannedChange) = Some fd
        \<and> (if fd_category fd = Numeric
             then \<not> jsEq (parseFloat (oldValue plannedChange)) (parseFloat (newValue plannedChange))
             else oldValue plannedChange \<noteq> newValue plannedChange)"
    by blast
  then have "\<not> jsEq (parseFloat ''10.00'') (parseFloat ''15.00'')"
    by (simp add: plannedChange_def getFieldDef_price)
  with i show ?thesis by simp
qed

subsection \<open>Variants with a blank numeric field\<close>






subsection \<open>Reversal\<close>

























subsection \<open>Batch execution\<close>

lemma applyRequest_effect:
  "applyRequest cat hist productChanges req cs st =
     (case cat req of
        Throws msg \<Rightarrow> Inl (msg, st\<lparr>sent := sent st @ [req]\<rparr>)
      | UserErrors es \<Rightarrow>
          Inr (st\<lparr>sent := sent st @ [req],
                   successCount := successCount st + (if es = [] then length cs else 0),
                   errorCount := errorCount st + requestErrors productChanges cs (cat req),
                   errors := errors st @ requestErrorEntries productChanges (cat req),
                   historyRecords := historyRecords st @ (if es = [] then map hist cs else [])\<rparr>))"
  by (cases "cat req")
     (simp_all add: applyRequest_def Let_def requestErrors_def requestErrorEntries_def)

lemma processProduct_effect:
  "processProduct cat shop st g =
     st\<lparr>successCount := successCount st + groupSuccess cat g,
        errorCount := errorCount st + groupErrors cat g,
        errors := errors st @ groupErrorEntries cat g,
        historyRecords := historyRecords st @ groupHistory cat shop g,
        sent := sent st @ groupSent cat g\<rparr>"
proof -
  obtain pid cs where g: "g = (pid, cs)" by (cases g)
  show ?thesis
    unfolding processProduct_def Let_def applyRequest_effect
    by (cases "cat (plRequest g)"; cases "cat (vlRequest g)")
       (auto simp: g groupSuccess_def groupErrors_def groupErrorEntries_def groupHistory_def
          groupSent_def plMade_def vlMade_def plChanges_def vlChanges_def plRequest_def
          vlRequest_def threw_def succeeded_def requestErrors_def requestErrorEntries_def)
qed

lemma foldl_processProduct:
  "foldl (processProduct cat shop) st gs =
     st\<lparr>successCount := successCount st + sum_list (map (groupSuccess cat) gs),
        errorCount := errorCount st + sum_list (map (groupErrors cat) gs),
        errors := errors st @ concat (map (groupErrorEntries cat) gs),
        historyRecords := historyRecords st @ concat (map (groupHistory cat shop) gs),
        sent := sent st @ concat (map (groupSent cat) gs)\<rparr>"
proof (induction gs arbitrary: st)
  case Nil
  show ?case by simp
next
  case (Cons g gs)
  have "foldl (processProduct cat shop) st (g # gs)
          = foldl (processProduct cat shop) (processProduct cat shop st g) gs"
    by simp
  also note Cons[of "processProduct cat shop st g"]
  finally show ?case
    by (simp add: processProduct_effect[of cat shop st g] add.assoc)
qed

lemma length_groupHistory: "length (groupHistory cat shop g) = groupSuccess cat g"
  by (simp add: groupHistory_def groupSuccess_def)

lemma length_concat_groupHistory:
  "length (concat (map (groupHistory cat shop) gs)) = sum_list (map (groupSuccess cat) gs)"
  by (induction gs) (simp_all add: length_groupHistory)

text \<open>
  Claim C7, amended. When the quota is not reached, \<open>execute\<close> processes every product
  of the changeset, whatever the catalog answers for the others. A request answered with
  user errors adds the number of its changes to the error count; a call that throws adds
  the number of all the changes of its product (also those of the product's request that
  already succeeded) and ends that product; each adds one entry to the list of errors. The
  success count is the number of changes of the requests answered without error, and
  exactly those changes are written to the price history, one record each.
\<close>

theorem execute_accounting:
  assumes "\<not> limitReached w"
  shows "execute cat shop editName chs w =
     (Executed
        \<lparr>rp_successCount = sum_list (map (groupSuccess cat) (groupByProduct chs)),
         rp_errorCount = sum_list (map (groupErrors cat) (groupByProduct chs)),
         rp_errors = concat (map (groupErrorEntries cat) (groupByProduct chs)),
         rp_totalProducts = length (groupByProduct chs)\<rparr>,
      \<lparr>shopPlan = Some ((planOf w)\<lparr>monthlyEdits := monthlyEdits (planOf w) + 1\<rparr>),
       priceHistory = priceHistory w @ concat (map (groupHistory cat shop) (groupByProduct chs)),
       bulkEdit = bulkEdit w @
         [\<lparr>be_shop = shop, be_name = editName,
           be_status = (if sum_list (map (groupErrors cat) (groupByProduct chs)) = 0
                        then ''completed'' else ''partial''),
           be_productCount = sum_list (map (groupSuccess cat) (groupByProduct chs)),
           be_changes = take 50 chs\<rparr>],
       issued = issued w @ concat (map (groupSent cat) (groupByProduct chs))\<rparr>)
   \<and> length (concat (map (groupHistory cat shop) (groupByProduct chs)))
       = sum_list (map (groupSuccess cat) (groupByProduct chs))"
proof -
  have n: "\<not> (case PLAN_LIMITS (if plan (planOf w) = [] then ''free'' else plan (planOf w)) of
              Infinity \<Rightarrow> False | Limit n \<Rightarrow> n \<le> monthlyEdits (planOf w))"
    using assms by (simp add: limitReached_def)
  have p: "(case shopPlan w of None \<Rightarrow> defaultShopPlan | Some r \<Rightarrow> r) = planOf w"
    by (simp add: planOf_def)
  show ?thesis
    unfolding execute_def p Let_def
    using n by (simp add: foldl_processProduct length_concat_groupHistory)
qed

lemma example_groups:
  "groupByProduct [titleChange, priceChange] = [(''P1'', [titleChange, priceChange])]"
  unfolding titleChange_def priceChange_def by code_simp

lemma example_group_numbers:
  "groupSuccess variantsFail (''P1'', [titleChange, priceChange]) = 1
   \<and> groupErrors variantsFail (''P1'', [titleChange, priceChange]) = 2
   \<and> groupErrorEntries variantsFail (''P1'', [titleChange, priceChange])
       = [(Some ''Shirt'', [''boom''])]
   \<and> length (vlChanges (''P1'', [titleChange, priceChange])) = 1"
  by (simp add: groupSuccess_def groupErrors_def groupErrorEntries_def plMade_def vlMade_def
        plChanges_def vlChanges_def plRequest_def vlRequest_def variantsFail_def succeeded_def
        threw_def requestErrors_def requestErrorEntries_def firstTitle_def
        productLevelFields_def variantLevelFields_def titleChange_def priceChange_def)

lemma example_not_limited: "\<not> limitReached (exampleWorld 0)"
  by (simp add: limitReached_def planOf_def exampleWorld_def PLAN_LIMITS_def)

theorem execute_accounting_witness:
  "\<not> limitReached (exampleWorld 0)
   \<and> fst (execute variantsFail ''shop'' ''Bulk Edit'' [titleChange, priceChange] (exampleWorld 0))
       = Executed \<lparr>rp_successCount = 1, rp_errorCount = 2,
                   rp_errors = [(Some ''Shirt'', [''boom''])], rp_totalProducts = 1\<rparr>"
  using execute_accounting [OF example_not_limited, of variantsFail "''shop''" "''Bulk Edit''"
          "[titleChange, priceChange]"]
        example_not_limited
  by (simp add: example_groups example_group_numbers)

text \<open>
  The claim as stated fails when a call throws after a request of the same product has
  succeeded. A title change and a price change of one product, a catalog that accepts the
  product update and throws on the variant update: the failed request holds one change,
  and the error count is two (with a success count of one, for two changes in all).
\<close>

theorem throw_counts_all_changes_of_product:
  "foldl (processProduct variantsFail ''shop'')
     \<lparr>successCount = 0, errorCount = 0, errors = [], historyRecords = [], sent = []\<rparr>
     (groupByProduct [titleChange, priceChange])
   = \<lparr>successCount = 1, errorCount = 2, errors = [(Some ''Shirt'', [''boom''])],
      historyRecords = [productHistory ''shop'' ''P1'' titleChange],
      sent = [plRequest (''P1'', [titleChange, priceChange]),
              vlRequest (''P1'', [titleChange, priceChange])]\<rparr>
   \<and> length (vlChanges (''P1'', [titleChange, priceChange])) = 1
   \<and> variantsFail (vlRequest (''P1'', [titleChange, priceChange])) = Throws ''boom''"
proof -
  have h: "groupHistory variantsFail ''shop'' (''P1'', [titleChange, priceChange])
             = [productHistory ''shop'' ''P1'' titleChange]"
    by (simp add: groupHistory_def plMade_def vlMade_def plChanges_def vlChanges_def
          plRequest_def vlRequest_def variantsFail_def succeeded_def threw_def
          productLevelFields_def variantLevelFields_def titleChange_def priceChange_def)
  have s: "groupSent variantsFail (''P1'', [titleChange, priceChange])
             = [plRequest (''P1'', [titleChange, priceChange]),
                vlRequest (''P1'', [titleChange, priceChange])]"
    by (simp add: groupSent_def plMade_def vlMade_def plChanges_def vlChanges_def
          plRequest_def variantsFail_def threw_def
          productLevelFields_def variantLevelFields_def titleChange_def priceChange_def)
  have t: "variantsFail (vlRequest (''P1'', [titleChange, priceChange])) = Throws ''boom''"
    by (simp add: variantsFail_def vlRequest_def)
  show ?thesis
    unfolding example_groups foldl_processProduct
    using example_group_numbers h s t by simp
qed


end
